theory Spec2Isabelle
  imports Main "HOL-Library.Word"
begin

section \<open>Values\<close>

text \<open>
  A \<open>datetime\<close> is a point on an integer time line (microseconds since the epoch);
  \<open>datetime.now()\<close> is an argument of every handler that reads the clock.
  Python strings are sequences of code points; every literal of \<open>main.py\<close> stays below
  code point 256, so a \<open>char\<close> stands for one code point (\<open>CHR 0xE9\<close> is e-acute,
  \<open>CHR 0xE0\<close> is a-grave, \<open>CHR 0x27\<close> is the apostrophe).
\<close>

type_synonym datetime = int

datatype scalar = SNull | SBool bool | SInt int | SStr string

text \<open>
  Modelled from the spec: \<open>actif\<close> is a boolean kept as an integer, 1 for published and 0
  for withdrawn or pending. Its type is declared in \<open>models.py\<close>, which is not among the
  sources; here it is the integer of one bit, whose only values are the 0 and the 1 that
  \<open>main.py\<close> writes.
\<close>

type_synonym flag = "1 word"

text \<open>Python's \<open>str(n)\<close> for an integer: decimal digits, a minus sign when negative.\<close>

definition digit_char :: "nat \<Rightarrow> char" where
  "digit_char d = char_of (48 + d)"

function str_nat :: "nat \<Rightarrow> string" where
  "str_nat n = (if n < 10 then [digit_char n] else str_nat (n div 10) @ [digit_char (n mod 10)])"
  by pat_completeness auto
termination
  by (relation "measure (\<lambda>n. n)") auto

declare str_nat.simps [simp del]

definition str_int :: "int \<Rightarrow> string" where
  "str_int i = (if i < 0 then CHR ''-'' # str_nat (nat (- i)) else str_nat (nat i))"

text \<open>What an f-string writes for a value: \<open>str(v)\<close>.\<close>

fun py_str :: "scalar \<Rightarrow> string" where
  "py_str SNull = ''None''"
| "py_str (SBool b) = (if b then ''True'' else ''False'')"
| "py_str (SInt i) = str_int i"
| "py_str (SStr s) = s"

section \<open>Record schemas\<close>

text \<open>
  Modelled from the spec: \<open>models.py\<close> (the classes \<open>Annonce\<close> and \<open>Device\<close> and their
  pydantic variants) is imported by \<open>main.py\<close> but is not among the sources. A Listing has
  a store-assigned integer \<open>id\<close>, the flag \<open>actif\<close>, the free-text \<open>statut\<close>, the
  timestamps \<open>created_at\<close> and \<open>updated_at\<close>, and free-form descriptive fields, kept as a
  bag from column name to value. The column \<open>id\<close> is written \<open>ann_id\<close> here (\<open>id\<close> is the
  identity function of HOL).
\<close>

record Annonce =
  ann_id :: int
  actif :: flag
  statut :: string
  created_at :: "datetime option"
  updated_at :: "datetime option"
  descr :: "string \<rightharpoonup> scalar"

text \<open>
  Modelled from the spec: the input variant \<open>AnnonceIn_Pydantic\<close> is partial and has no
  server-assigned field (no \<open>id\<close>, no timestamp). \<open>None\<close> is a field the request did not set.
\<close>

record AnnonceIn =
  in_actif :: "flag option"
  in_statut :: "string option"
  in_descr :: "string \<rightharpoonup> scalar"

text \<open>
  Modelled from the spec: a Device row is the \<open>device_id\<close> of the installation, on which the
  store enforces neither a shape nor uniqueness, and descriptive installation metadata. The
  input variant is partial.
\<close>

record Device =
  device_id :: scalar
  dev_descr :: "string \<rightharpoonup> scalar"

record DeviceIn =
  in_device_id :: "scalar option"
  in_dev_descr :: "string \<rightharpoonup> scalar"

text \<open>
  The defaults that the schema declares for the columns a request may leave unset. They are
  declared in \<open>models.py\<close>, so they are a parameter of the two creating handlers.
\<close>

record schema =
  default_actif :: flag
  default_statut :: string
  default_descr :: "string \<rightharpoonup> scalar"
  default_device_id :: scalar
  default_dev_descr :: "string \<rightharpoonup> scalar"

text \<open>The response model \<open>Status\<close> of \<open>main.py\<close>.\<close>

record Status =
  message :: string

section \<open>The store and the mapping layer\<close>

text \<open>
  The store holds the two tables in insertion order and the last Listing id it assigned
  (an id is never reused).
\<close>

record store =
  annonces :: "Annonce list"
  annonce_seq :: int
  devices :: "Device list"

datatype error = DoesNotExist | MultipleObjectsReturned | HTTPException nat string


text \<open>
  The keyword arguments of \<open>Annonce.filter(...)\<close> and \<open>Annonce.get(...)\<close>: each given keyword
  is an exact-match condition, and a row is selected when all of them hold.
\<close>

record Annonce_lookup =
  lk_id :: "int option"
  lk_actif :: "flag option"
  lk_statut :: "string option"

definition matches :: "Annonce_lookup \<Rightarrow> Annonce \<Rightarrow> bool" where
  "matches q r =
     ((case lk_id q of None \<Rightarrow> True | Some i \<Rightarrow> ann_id r = i) \<and>
      (case lk_actif q of None \<Rightarrow> True | Some a \<Rightarrow> actif r = a) \<and>
      (case lk_statut q of None \<Rightarrow> True | Some t \<Rightarrow> statut r = t))"

definition by_id :: "int \<Rightarrow> Annonce_lookup" where
  "by_id i = \<lparr>lk_id = Some i, lk_actif = None, lk_statut = None\<rparr>"

text \<open>
  The keyword arguments of \<open>Annonce.create(...)\<close> and of \<open>QuerySet.update(...)\<close>: only the
  columns named are written.
\<close>

record Annonce_kwargs =
  kw_actif :: "flag option"
  kw_statut :: "string option"
  kw_updated_at :: "datetime option"
  kw_descr :: "string \<rightharpoonup> scalar"

definition no_kwargs :: Annonce_kwargs where
  "no_kwargs = \<lparr>kw_actif = None, kw_statut = None, kw_updated_at = None, kw_descr = Map.empty\<rparr>"

text \<open>\<open>annonce.model_dump(exclude_unset=True)\<close>: the fields the request set, and no other.\<close>

definition model_dump :: "AnnonceIn \<Rightarrow> Annonce_kwargs" where
  "model_dump a =
     \<lparr>kw_actif = in_actif a, kw_statut = in_statut a, kw_updated_at = None,
      kw_descr = in_descr a\<rparr>"

definition set_columns :: "Annonce_kwargs \<Rightarrow> Annonce \<Rightarrow> Annonce" where
  "set_columns k r =
     r\<lparr>actif := (case kw_actif k of None \<Rightarrow> actif r | Some a \<Rightarrow> a),
       statut := (case kw_statut k of None \<Rightarrow> statut r | Some t \<Rightarrow> t),
       updated_at := (case kw_updated_at k of None \<Rightarrow> updated_at r | Some d \<Rightarrow> Some d),
       descr := descr r ++ kw_descr k\<rparr>"

text \<open>
  \<open>QuerySet.update\<close> and \<open>QuerySet.delete\<close> act on every selected row and return the number of
  rows they touched; neither raises when that number is zero.
\<close>

definition qs_update :: "('r \<Rightarrow> bool) \<Rightarrow> ('r \<Rightarrow> 'r) \<Rightarrow> 'r list \<Rightarrow> nat \<times> 'r list" where
  "qs_update p f tbl = (length (filter p tbl), map (\<lambda>r. if p r then f r else r) tbl)"

definition qs_delete :: "('r \<Rightarrow> bool) \<Rightarrow> 'r list \<Rightarrow> nat \<times> 'r list" where
  "qs_delete p tbl = (length (filter p tbl), filter (\<lambda>r. \<not> p r) tbl)"

text \<open>\<open>Model.get\<close> wants exactly one row.\<close>

definition qs_get :: "('r \<Rightarrow> bool) \<Rightarrow> 'r list \<Rightarrow> error + 'r" where
  "qs_get p tbl =
     (case filter p tbl of
        [] \<Rightarrow> Inl DoesNotExist
      | [r] \<Rightarrow> Inr r
      | _ \<Rightarrow> Inl MultipleObjectsReturned)"

text \<open>
  \<open>Annonce.create\<close>: the store assigns the next key and the timestamps; a column the
  keywords leave out takes the default of the schema.
\<close>

definition Annonce_create :: "schema \<Rightarrow> datetime \<Rightarrow> Annonce_kwargs \<Rightarrow> store \<Rightarrow> Annonce \<times> store" where
  "Annonce_create sch now k s =
     (let obj = \<lparr>ann_id = annonce_seq s + 1,
                 actif = (case kw_actif k of None \<Rightarrow> default_actif sch | Some a \<Rightarrow> a),
                 statut = (case kw_statut k of None \<Rightarrow> default_statut sch | Some t \<Rightarrow> t),
                 created_at = Some now,
                 updated_at = (case kw_updated_at k of None \<Rightarrow> Some now | Some d \<Rightarrow> Some d),
                 descr = default_descr sch ++ kw_descr k\<rparr>
      in (obj, s\<lparr>annonces := annonces s @ [obj], annonce_seq := annonce_seq s + 1\<rparr>))"

definition Device_create :: "schema \<Rightarrow> DeviceIn \<Rightarrow> store \<Rightarrow> Device \<times> store" where
  "Device_create sch d s =
     (let obj = \<lparr>device_id = (case in_device_id d of None \<Rightarrow> default_device_id sch | Some v \<Rightarrow> v),
                 dev_descr = default_dev_descr sch ++ in_dev_descr d\<rparr>
      in (obj, s\<lparr>devices := devices s @ [obj]\<rparr>))"

section \<open>The request handlers of main.py\<close>

definition get_annonces :: "store \<Rightarrow> Annonce list" where
  "get_annonces s = annonces s"

definition get_actives_annonces :: "store \<Rightarrow> Annonce list" where
  "get_actives_annonces s =
     filter (matches \<lparr>lk_id = None, lk_actif = Some 1, lk_statut = Some ''fall''\<rparr>) (annonces s)"

definition get_inactive_annonce :: "store \<Rightarrow> Annonce list" where
  "get_inactive_annonce s =
     filter (matches \<lparr>lk_id = None, lk_actif = Some 0, lk_statut = Some ''fall''\<rparr>) (annonces s)"

definition create_annonce :: "schema \<Rightarrow> datetime \<Rightarrow> store \<Rightarrow> AnnonceIn \<Rightarrow> (error + Annonce) \<times> store" where
  "create_annonce sch now s annonce =
     (let (obj, s') = Annonce_create sch now (model_dump annonce) s in (Inr obj, s'))"

definition get_annonce :: "store \<Rightarrow> int \<Rightarrow> error + Annonce" where
  "get_annonce s annonce_id = qs_get (matches (by_id annonce_id)) (annonces s)"

definition update_annonce :: "store \<Rightarrow> int \<Rightarrow> AnnonceIn \<Rightarrow> (error + Annonce) \<times> store" where
  "update_annonce s annonce_id annonce =
     (let (n, tbl) = qs_update (matches (by_id annonce_id)) (set_columns (model_dump annonce))
                       (annonces s);
          s' = s\<lparr>annonces := tbl\<rparr>
      in (qs_get (matches (by_id annonce_id)) (annonces s'), s'))"

definition publish_message :: string where
  "publish_message =
     ''L'' @ [CHR 0x27] @ ''annonce '' @ [CHR 0xE0] @ '' bien '' @ [CHR 0xE9] @ ''t'' @ [CHR 0xE9]
       @ '' publi'' @ [CHR 0xE9] @ ''e''"

definition publish_annonce :: "datetime \<Rightarrow> store \<Rightarrow> int \<Rightarrow> (error + Status) \<times> store" where
  "publish_annonce now s annonce_id =
     (let (n, tbl) = qs_update (matches (by_id annonce_id))
                       (set_columns (no_kwargs\<lparr>kw_actif := Some 1, kw_updated_at := Some now\<rparr>))
                       (annonces s)
      in (Inr \<lparr>message = publish_message\<rparr>, s\<lparr>annonces := tbl\<rparr>))"

definition acchieve_message :: string where
  "acchieve_message = ''Felicitation, objet bien rendu au proprietaire !''"

definition acchieve_annonce :: "datetime \<Rightarrow> store \<Rightarrow> int \<Rightarrow> (error + Status) \<times> store" where
  "acchieve_annonce now s annonce_id =
     (let (n, tbl) = qs_update (matches (by_id annonce_id))
                       (set_columns (no_kwargs\<lparr>kw_statut := Some ''pupa'', kw_actif := Some 0,
                                                kw_updated_at := Some now\<rparr>))
                       (annonces s)
      in (Inr \<lparr>message = acchieve_message\<rparr>, s\<lparr>annonces := tbl\<rparr>))"

definition not_found_detail :: "int \<Rightarrow> string" where
  "not_found_detail annonce_id =
     ''L'' @ [CHR 0x27] @ ''annonce '' @ str_int annonce_id @ '' n'' @ [CHR 0x27] @ ''a pas ''
       @ [CHR 0xE9] @ ''t'' @ [CHR 0xE9] @ '' trouv'' @ [CHR 0xE9] @ ''e''"

definition deleted_message :: "int \<Rightarrow> string" where
  "deleted_message annonce_id =
     ''L'' @ [CHR 0x27] @ ''annonce '' @ str_int annonce_id @ '' a '' @ [CHR 0xE9] @ ''t''
       @ [CHR 0xE9] @ '' supprim'' @ [CHR 0xE9] @ ''e''"

definition delete_annonce :: "store \<Rightarrow> int \<Rightarrow> (error + Status) \<times> store" where
  "delete_annonce s annonce_id =
     (let (deleted_count, tbl) = qs_delete (matches (by_id annonce_id)) (annonces s);
          s' = s\<lparr>annonces := tbl\<rparr>
      in if deleted_count = 0 then (Inl (HTTPException 404 (not_found_detail annonce_id)), s')
         else (Inr \<lparr>message = deleted_message annonce_id\<rparr>, s'))"

definition welcome_prefix :: string where
  "welcome_prefix = ''Nous sommes heureux de vous compter parmis nous, utilisateur ''"

definition get_device_info :: "schema \<Rightarrow> store \<Rightarrow> DeviceIn \<Rightarrow> (error + Status) \<times> store" where
  "get_device_info sch s device =
     (let (obj, s') = Device_create sch device s
      in (Inr \<lparr>message = welcome_prefix @ py_str (device_id obj)\<rparr>, s'))"

section \<open>Stores that the handlers can reach\<close>

text \<open>
  Modelled from the spec: the id of a Listing is unique, and the store never hands out an
  id twice, so every id in the table is at most the last one assigned.
\<close>

definition wf_store :: "store \<Rightarrow> bool" where
  "wf_store s =
     (distinct (map ann_id (annonces s)) \<and>
      list_all (\<lambda>r. ann_id r \<le> annonce_seq s) (annonces s))"

text \<open>A schema, a store and two requests to run the handlers on.\<close>

definition example_schema :: schema where
  "example_schema =
     \<lparr>default_actif = 0, default_statut = ''fall'', default_descr = Map.empty,
      default_device_id = SNull, default_dev_descr = Map.empty\<rparr>"

definition empty_store :: store where
  "empty_store = \<lparr>annonces = [], annonce_seq = 0, devices = []\<rparr>"

definition wallet :: Annonce where
  "wallet =
     \<lparr>ann_id = 1, actif = 0, statut = ''fall'', created_at = Some 100, updated_at = Some 100,
      descr = [''title'' \<mapsto> SStr ''Lost wallet'']\<rparr>"

definition wallet_store :: store where
  "wallet_store = \<lparr>annonces = [wallet], annonce_seq = 1, devices = []\<rparr>"

definition wallet_in :: AnnonceIn where
  "wallet_in =
     \<lparr>in_actif = None, in_statut = None, in_descr = [''title'' \<mapsto> SStr ''Lost wallet'']\<rparr>"

definition empty_in :: AnnonceIn where
  "empty_in = \<lparr>in_actif = None, in_statut = None, in_descr = Map.empty\<rparr>"

definition activate_in :: AnnonceIn where
  "activate_in = \<lparr>in_actif = Some 1, in_statut = None, in_descr = Map.empty\<rparr>"


text \<open>
  The stores the service can be in: it starts on empty tables, and every request that
  writes goes through one of the handlers.
\<close>

inductive reachable :: "schema \<Rightarrow> store \<Rightarrow> bool" for sch :: schema where
  start: "reachable sch empty_store"
| create: "reachable sch s \<Longrightarrow> reachable sch (snd (create_annonce sch now s a))"
| update: "reachable sch s \<Longrightarrow> reachable sch (snd (update_annonce s i a))"
| publish: "reachable sch s \<Longrightarrow> reachable sch (snd (publish_annonce now s i))"
| acchieve: "reachable sch s \<Longrightarrow> reachable sch (snd (acchieve_annonce now s i))"
| delete: "reachable sch s \<Longrightarrow> reachable sch (snd (delete_annonce s i))"
| install: "reachable sch s \<Longrightarrow> reachable sch (snd (get_device_info sch s d))"

section \<open>Rendering integers\<close>

lemma digit_chars:
  "digit_char 0 = CHR ''0''" "digit_char 1 = CHR ''1''" "digit_char 2 = CHR ''2''"
  "digit_char 3 = CHR ''3''" "digit_char 4 = CHR ''4''" "digit_char 5 = CHR ''5''"
  "digit_char 6 = CHR ''6''" "digit_char 7 = CHR ''7''" "digit_char 8 = CHR ''8''"
  "digit_char 9 = CHR ''9''" "digit_char (Suc 0) = CHR ''1''"
  by (simp_all add: digit_char_def char_of_def bit_Suc_0_iff)

lemma str_int_1: "str_int 1 = ''1''"
  by (simp add: str_int_def str_nat.simps digit_chars)

lemma str_int_999999: "str_int 999999 = ''999999''"
  by (simp add: str_int_def str_nat.simps digit_chars)

lemma str_int_neg: "str_int (- 42) = ''-42''"
  by (simp add: str_int_def str_nat.simps digit_chars)

lemma deleted_message_1:
  "deleted_message 1 =
     ''L'' @ [CHR 0x27] @ ''annonce 1 a '' @ [CHR 0xE9] @ ''t'' @ [CHR 0xE9] @ '' supprim''
       @ [CHR 0xE9] @ ''e''"
  by (simp add: deleted_message_def str_int_1)

lemma not_found_detail_999999:
  "not_found_detail 999999 =
     ''L'' @ [CHR 0x27] @ ''annonce 999999 n'' @ [CHR 0x27] @ ''a pas '' @ [CHR 0xE9] @ ''t''
       @ [CHR 0xE9] @ '' trouv'' @ [CHR 0xE9] @ ''e''"
  by (simp add: not_found_detail_def str_int_999999)

section \<open>Facts about the mapping layer\<close>


lemma matches_by_id [simp]: "matches (by_id i) = (\<lambda>r. ann_id r = i)"
  by (rule ext) (simp add: matches_def by_id_def)

lemma matches_public:
  "matches \<lparr>lk_id = None, lk_actif = Some 1, lk_statut = Some ''fall''\<rparr>
     = (\<lambda>r. actif r = 1 \<and> statut r = ''fall'')"
  by (rule ext) (simp add: matches_def)

lemma matches_private:
  "matches \<lparr>lk_id = None, lk_actif = Some 0, lk_statut = Some ''fall''\<rparr>
     = (\<lambda>r. actif r = 0 \<and> statut r = ''fall'')"
  by (rule ext) (simp add: matches_def)

lemma filter_id_absent: "i \<notin> ann_id ` set tbl \<Longrightarrow> filter (\<lambda>r. ann_id r = i) tbl = []"
  by (induction tbl) auto

lemma filter_id_unique:
  "distinct (map ann_id tbl) \<Longrightarrow> r \<in> set tbl \<Longrightarrow> filter (\<lambda>x. ann_id x = ann_id r) tbl = [r]"
proof (induction tbl)
  case Nil
  then show ?case by simp
next
  case (Cons x xs)
  show ?case
  proof (cases "x = r")
    case True
    with Cons.prems have "ann_id r \<notin> ann_id ` set xs" by simp
    then have "filter (\<lambda>x. ann_id x = ann_id r) xs = []" by (rule filter_id_absent)
    with True show ?thesis by simp
  next
    case False
    with Cons.prems have tail: "r \<in> set xs" by simp
    with Cons.prems have "ann_id x \<noteq> ann_id r" by auto
    with Cons tail show ?thesis by simp
  qed
qed

lemma filter_id_map:
  "(\<And>x. ann_id (g x) = ann_id x) \<Longrightarrow>
     filter (\<lambda>x. ann_id x = i) (map g tbl) = map g (filter (\<lambda>x. ann_id x = i) tbl)"
  by (induction tbl) auto

lemma update_absent:
  "i \<notin> ann_id ` set tbl \<Longrightarrow> map (\<lambda>r. if ann_id r = i then f r else r) tbl = tbl"
  by (induction tbl) auto

lemma qs_get_absent: "i \<notin> ann_id ` set tbl \<Longrightarrow> qs_get (\<lambda>x. ann_id x = i) tbl = Inl DoesNotExist"
  by (simp add: qs_get_def filter_id_absent)

lemma qs_get_unique:
  "distinct (map ann_id tbl) \<Longrightarrow> r \<in> set tbl \<Longrightarrow> qs_get (\<lambda>x. ann_id x = ann_id r) tbl = Inr r"
  by (simp add: qs_get_def filter_id_unique)

lemma qs_get_Inr:
  assumes "qs_get p tbl = Inr r"
  shows "r \<in> set tbl \<and> p r"
proof -
  from assms have "filter p tbl = [r]"
    by (auto simp: qs_get_def split: list.splits)
  then have "r \<in> set (filter p tbl)" by simp
  then show ?thesis by simp
qed


lemma qs_get_map:
  assumes "\<And>x. ann_id (g x) = ann_id x"
  shows "qs_get (\<lambda>x. ann_id x = i) (map g tbl) = map_sum (\<lambda>e. e) g (qs_get (\<lambda>x. ann_id x = i) tbl)"
  using assms by (simp add: qs_get_def filter_id_map split: list.splits)

lemma set_columns_id [simp]: "ann_id (set_columns k r) = ann_id r"
  by (simp add: set_columns_def)

lemma set_columns_model_dump:
  "set_columns (model_dump a) r =
     r\<lparr>actif := (case in_actif a of None \<Rightarrow> actif r | Some v \<Rightarrow> v),
       statut := (case in_statut a of None \<Rightarrow> statut r | Some t \<Rightarrow> t),
       descr := descr r ++ in_descr a\<rparr>"
  by (simp add: set_columns_def model_dump_def)

lemma fresh_id: "list_all (\<lambda>r. ann_id r \<le> n) tbl \<Longrightarrow> n + 1 \<notin> ann_id ` set tbl"
  by (auto simp: list_all_iff)

lemma list_all_next_seq:
  "list_all (\<lambda>r. f r \<le> (n::int)) tbl \<Longrightarrow> list_all (\<lambda>r. f r \<le> n + 1) tbl"
  by (induction tbl) auto

section \<open>What each handler computes\<close>

lemma get_annonce_absent: "i \<notin> ann_id ` set (annonces s) \<Longrightarrow> get_annonce s i = Inl DoesNotExist"
  by (simp add: get_annonce_def qs_get_absent)

lemma get_annonce_present:
  "wf_store s \<Longrightarrow> r \<in> set (annonces s) \<Longrightarrow> get_annonce s (ann_id r) = Inr r"
  by (simp add: get_annonce_def wf_store_def qs_get_unique)

lemma get_annonce_Inr: "get_annonce s i = Inr r \<Longrightarrow> r \<in> set (annonces s) \<and> ann_id r = i"
  by (auto simp: get_annonce_def dest: qs_get_Inr)

lemma get_annonce_updated:
  assumes "\<And>x. ann_id (f x) = ann_id x"
  shows "get_annonce (s\<lparr>annonces := map (\<lambda>r. if ann_id r = i then f r else r) (annonces s)\<rparr>) i
           = map_sum (\<lambda>e. e) f (get_annonce s i)"
proof -
  let ?g = "\<lambda>r. if ann_id r = i then f r else r"
  have g: "\<And>x. ann_id (?g x) = ann_id x" using assms by simp
  have "get_annonce (s\<lparr>annonces := map ?g (annonces s)\<rparr>) i = map_sum (\<lambda>e. e) ?g (get_annonce s i)"
    unfolding get_annonce_def using qs_get_map [of ?g i "annonces s", OF g] by simp
  also have "\<dots> = map_sum (\<lambda>e. e) f (get_annonce s i)"
    by (cases "get_annonce s i") (auto dest: get_annonce_Inr)
  finally show ?thesis .
qed

lemma create_annonce_eq:
  "create_annonce sch now s a =
     (let obj = \<lparr>ann_id = annonce_seq s + 1,
                 actif = (case in_actif a of None \<Rightarrow> default_actif sch | Some v \<Rightarrow> v),
                 statut = (case in_statut a of None \<Rightarrow> default_statut sch | Some t \<Rightarrow> t),
                 created_at = Some now, updated_at = Some now,
                 descr = default_descr sch ++ in_descr a\<rparr>
      in (Inr obj, s\<lparr>annonces := annonces s @ [obj], annonce_seq := annonce_seq s + 1\<rparr>))"
  by (simp add: create_annonce_def Annonce_create_def model_dump_def Let_def)

lemma update_annonce_eq:
  "update_annonce s i a =
     (let s' = s\<lparr>annonces := map (\<lambda>r. if ann_id r = i then set_columns (model_dump a) r else r)
                                (annonces s)\<rparr>
      in (get_annonce s' i, s'))"
  by (simp add: update_annonce_def qs_update_def get_annonce_def Let_def)

lemma publish_annonce_eq:
  "publish_annonce now s i =
     (Inr \<lparr>message = publish_message\<rparr>,
      s\<lparr>annonces := map (\<lambda>r. if ann_id r = i then r\<lparr>actif := 1, updated_at := Some now\<rparr> else r)
                        (annonces s)\<rparr>)"
  by (simp add: publish_annonce_def qs_update_def set_columns_def no_kwargs_def)

lemma acchieve_annonce_eq:
  "acchieve_annonce now s i =
     (Inr \<lparr>message = acchieve_message\<rparr>,
      s\<lparr>annonces := map (\<lambda>r. if ann_id r = i
                                then r\<lparr>actif := 0, statut := ''pupa'', updated_at := Some now\<rparr> else r)
                        (annonces s)\<rparr>)"
  by (simp add: acchieve_annonce_def qs_update_def set_columns_def no_kwargs_def)

lemma delete_annonce_eq:
  "delete_annonce s i =
     (if i \<in> ann_id ` set (annonces s) then Inr \<lparr>message = deleted_message i\<rparr>
      else Inl (HTTPException 404 (not_found_detail i)),
      s\<lparr>annonces := filter (\<lambda>r. ann_id r \<noteq> i) (annonces s)\<rparr>)"
proof -
  have "(filter (\<lambda>r. ann_id r = i) (annonces s) = []) = (i \<notin> ann_id ` set (annonces s))"
    by (auto simp: filter_empty_conv)
  then show ?thesis
    by (simp add: delete_annonce_def qs_delete_def)
qed

lemma get_device_info_eq:
  "get_device_info sch s d =
     (let obj = \<lparr>device_id = (case in_device_id d of None \<Rightarrow> default_device_id sch | Some v \<Rightarrow> v),
                 dev_descr = default_dev_descr sch ++ in_dev_descr d\<rparr>
      in (Inr \<lparr>message = welcome_prefix @ py_str (device_id obj)\<rparr>,
          s\<lparr>devices := devices s @ [obj]\<rparr>))"
  by (simp add: get_device_info_def Device_create_def Let_def)

lemma wf_wallet_store: "wf_store wallet_store"
  by (simp add: wf_store_def wallet_store_def wallet_def)

lemma wf_empty_store: "wf_store empty_store"
  by (simp add: wf_store_def empty_store_def)

section \<open>Every reachable store has unique ids\<close>

lemma list_all_same_ids:
  "(\<And>x. ann_id (g x) = ann_id x) \<Longrightarrow>
     list_all (\<lambda>r. ann_id r \<le> n) (map g tbl) = list_all (\<lambda>r. ann_id r \<le> n) tbl"
  by (induction tbl) simp_all

lemma wf_update_rows:
  assumes "wf_store s" and "\<And>x. ann_id (f x) = ann_id x"
  shows "wf_store (s\<lparr>annonces := map (\<lambda>r. if ann_id r = i then f r else r) (annonces s)\<rparr>)"
proof -
  let ?g = "\<lambda>r. if ann_id r = i then f r else r"
  have g: "\<And>x. ann_id (?g x) = ann_id x" using assms(2) by simp
  have ids: "map ann_id (map ?g (annonces s)) = map ann_id (annonces s)"
    using g by (simp add: comp_def)
  have bound: "list_all (\<lambda>r. ann_id r \<le> annonce_seq s) (map ?g (annonces s))
          = list_all (\<lambda>r. ann_id r \<le> annonce_seq s) (annonces s)"
    using g by (rule list_all_same_ids)
  have d: "distinct (map ann_id (map ?g (annonces s)))"
    using assms(1) unfolding ids wf_store_def by simp
  have b: "list_all (\<lambda>r. ann_id r \<le> annonce_seq s) (map ?g (annonces s))"
    using assms(1) unfolding bound wf_store_def by simp
  from d b show ?thesis
    by (simp add: wf_store_def del: map_map)
qed

lemma wf_create: "wf_store s \<Longrightarrow> wf_store (snd (create_annonce sch now s a))"
  by (simp add: create_annonce_eq Let_def wf_store_def fresh_id list_all_next_seq)

lemma wf_update: "wf_store s \<Longrightarrow> wf_store (snd (update_annonce s i a))"
  by (simp add: update_annonce_eq Let_def wf_update_rows)

lemma wf_publish: "wf_store s \<Longrightarrow> wf_store (snd (publish_annonce now s i))"
  by (simp add: publish_annonce_eq wf_update_rows)

lemma wf_acchieve: "wf_store s \<Longrightarrow> wf_store (snd (acchieve_annonce now s i))"
  by (simp add: acchieve_annonce_eq wf_update_rows)

lemma wf_delete: "wf_store s \<Longrightarrow> wf_store (snd (delete_annonce s i))"
  by (simp add: delete_annonce_eq wf_store_def distinct_map_filter list_all_iff)

lemma wf_install: "wf_store s \<Longrightarrow> wf_store (snd (get_device_info sch s d))"
  by (simp add: get_device_info_eq Let_def wf_store_def)

lemma reachable_wf: "reachable sch s \<Longrightarrow> wf_store s"
  by (induction rule: reachable.induct)
     (simp_all add: wf_empty_store wf_create wf_update wf_publish wf_acchieve wf_delete wf_install)

section \<open>The claims\<close>

text \<open>
  C1 (Update). \<open>update_annonce\<close> writes the fields the request set, and no other, to the
  rows whose id is the one asked for, and leaves every other row and the rest of the store
  as they were. It never looks the id up before updating: its answer is what the fetch
  after the update returns, so on an id no row has the store is unchanged and the answer is
  the \<open>DoesNotExist\<close> of that fetch. On a store with unique ids the answer for an existing
  id is the row after the update. A request that sets no field changes nothing in the store
  and, for an existing id, is answered with the row as it was.
\<close>

theorem update_annonce_partial:
  "annonces (snd (update_annonce s i a)) =
     map (\<lambda>r. if ann_id r = i
               then r\<lparr>actif := (case in_actif a of None \<Rightarrow> actif r | Some v \<Rightarrow> v),
                      statut := (case in_statut a of None \<Rightarrow> statut r | Some t \<Rightarrow> t),
                      descr := descr r ++ in_descr a\<rparr>
               else r) (annonces s) \<and>
   annonce_seq (snd (update_annonce s i a)) = annonce_seq s \<and>
   devices (snd (update_annonce s i a)) = devices s \<and>
   fst (update_annonce s i a) = get_annonce (snd (update_annonce s i a)) i \<and>
   (i \<notin> ann_id ` set (annonces s) \<longrightarrow> update_annonce s i a = (Inl DoesNotExist, s)) \<and>
   (wf_store s \<and> r \<in> set (annonces s) \<and> i = ann_id r \<longrightarrow>
      fst (update_annonce s i a) =
        Inr (r\<lparr>actif := (case in_actif a of None \<Rightarrow> actif r | Some v \<Rightarrow> v),
               statut := (case in_statut a of None \<Rightarrow> statut r | Some t \<Rightarrow> t),
               descr := descr r ++ in_descr a\<rparr>)) \<and>
   (in_actif a = None \<and> in_statut a = None \<and> in_descr a = Map.empty \<longrightarrow>
      snd (update_annonce s i a) = s \<and>
      (wf_store s \<and> r \<in> set (annonces s) \<and> i = ann_id r \<longrightarrow> fst (update_annonce s i a) = Inr r))"
proof (intro conjI impI)
  assume "i \<notin> ann_id ` set (annonces s)"
  then show "update_annonce s i a = (Inl DoesNotExist, s)"
    by (simp add: update_annonce_eq update_absent get_annonce_absent)
next
  assume "wf_store s \<and> r \<in> set (annonces s) \<and> i = ann_id r"
  then show "fst (update_annonce s i a) =
        Inr (r\<lparr>actif := (case in_actif a of None \<Rightarrow> actif r | Some v \<Rightarrow> v),
               statut := (case in_statut a of None \<Rightarrow> statut r | Some t \<Rightarrow> t),
               descr := descr r ++ in_descr a\<rparr>)"
    by (simp add: update_annonce_eq Let_def get_annonce_updated get_annonce_present
          set_columns_model_dump)
next
  assume "in_actif a = None \<and> in_statut a = None \<and> in_descr a = Map.empty"
  then have same: "\<And>r. set_columns (model_dump a) r = r"
    by (simp add: set_columns_model_dump)
  have noop: "(\<lambda>r. if ann_id r = i then set_columns (model_dump a) r else r) = (\<lambda>r. r)"
    by (rule ext) (simp add: same)
  show "snd (update_annonce s i a) = s"
    by (simp add: update_annonce_eq Let_def noop)
  assume "wf_store s \<and> r \<in> set (annonces s) \<and> i = ann_id r"
  then show "fst (update_annonce s i a) = Inr r"
    by (simp add: update_annonce_eq Let_def get_annonce_updated get_annonce_present same)
qed (simp_all add: update_annonce_eq Let_def set_columns_model_dump)

theorem update_annonce_partial_witness:
  "999999 \<notin> ann_id ` set (annonces wallet_store) \<and>
   update_annonce wallet_store 999999 wallet_in = (Inl DoesNotExist, wallet_store) \<and>
   wf_store wallet_store \<and> wallet \<in> set (annonces wallet_store) \<and> 1 = ann_id wallet \<and>
   in_actif empty_in = None \<and> in_statut empty_in = None \<and> in_descr empty_in = Map.empty \<and>
   update_annonce wallet_store 1 empty_in = (Inr wallet, wallet_store) \<and>
   fst (update_annonce wallet_store 1 activate_in) = Inr (wallet\<lparr>actif := 1\<rparr>)"
proof -
  have h1: "999999 \<notin> ann_id ` set (annonces wallet_store)"
    by (simp add: wallet_store_def wallet_def)
  have h2: "wf_store wallet_store \<and> wallet \<in> set (annonces wallet_store) \<and> 1 = ann_id wallet"
    by (simp add: wf_wallet_store) (simp add: wallet_store_def wallet_def)
  have h3: "in_actif empty_in = None \<and> in_statut empty_in = None \<and> in_descr empty_in = Map.empty"
    by (simp add: empty_in_def)
  from h1 update_annonce_partial [where s = wallet_store and i = 999999 and a = wallet_in]
  have a: "update_annonce wallet_store 999999 wallet_in = (Inl DoesNotExist, wallet_store)"
    by blast
  from h2 h3 update_annonce_partial [where s = wallet_store and i = 1 and a = empty_in and r = wallet]
  have b: "snd (update_annonce wallet_store 1 empty_in) = wallet_store \<and>
           fst (update_annonce wallet_store 1 empty_in) = Inr wallet"
    by blast
  from h2 update_annonce_partial [where s = wallet_store and i = 1 and r = wallet and a = activate_in]
  have c0: "fst (update_annonce wallet_store 1 activate_in) =
     Inr (wallet\<lparr>actif := (case in_actif activate_in of None \<Rightarrow> actif wallet | Some v \<Rightarrow> v),
                statut := (case in_statut activate_in of None \<Rightarrow> statut wallet | Some t \<Rightarrow> t),
                descr := descr wallet ++ in_descr activate_in\<rparr>)"
    by blast
  have c: "fst (update_annonce wallet_store 1 activate_in) = Inr (wallet\<lparr>actif := 1\<rparr>)"
    unfolding c0 by (simp add: activate_in_def)
  from b have b': "update_annonce wallet_store 1 empty_in = (Inr wallet, wallet_store)"
    by (simp add: prod_eq_iff)
  from h1 h2 h3 a b' c show ?thesis by blast
qed



text \<open>
  C3 (Publish). For every id and every store, \<open>publish_annonce\<close> sets \<open>actif\<close> to 1 and
  \<open>updated_at\<close> to the current time on the rows with that id, whatever they held, and
  touches nothing else. Its answer is always the same message: a \<open>Status\<close>, which has no
  place for the row.
\<close>

theorem publish_annonce_sets_active:
  "fst (publish_annonce now s i) = Inr \<lparr>message = publish_message\<rparr> \<and>
   annonces (snd (publish_annonce now s i)) =
     map (\<lambda>r. if ann_id r = i then r\<lparr>actif := 1, updated_at := Some now\<rparr> else r) (annonces s) \<and>
   annonce_seq (snd (publish_annonce now s i)) = annonce_seq s \<and>
   devices (snd (publish_annonce now s i)) = devices s"
  by (simp add: publish_annonce_eq)

text \<open>
  C4 (Mark resolved). For every id and every store, \<open>acchieve_annonce\<close> sets \<open>statut\<close> to
  "pupa", \<open>actif\<close> to 0 and \<open>updated_at\<close> to the current time on the rows with that id and
  touches nothing else; its answer is always the same message. A fetch of the id afterwards
  can only return a row with \<open>statut\<close> "pupa" and \<open>actif\<close> 0, and on a store with unique ids
  it returns the listing so changed. A second call changes \<open>updated_at\<close> only.
\<close>

theorem acchieve_annonce_resolves:
  "fst (acchieve_annonce now s i) = Inr \<lparr>message = acchieve_message\<rparr> \<and>
   annonces (snd (acchieve_annonce now s i)) =
     map (\<lambda>r. if ann_id r = i then r\<lparr>actif := 0, statut := ''pupa'', updated_at := Some now\<rparr> else r)
       (annonces s) \<and>
   annonce_seq (snd (acchieve_annonce now s i)) = annonce_seq s \<and>
   devices (snd (acchieve_annonce now s i)) = devices s \<and>
   (wf_store s \<and> r \<in> set (annonces s) \<longrightarrow>
      get_annonce (snd (acchieve_annonce now s (ann_id r))) (ann_id r)
        = Inr (r\<lparr>actif := 0, statut := ''pupa'', updated_at := Some now\<rparr>)) \<and>
   (get_annonce (snd (acchieve_annonce now s i)) i = Inr r' \<longrightarrow> statut r' = ''pupa'' \<and> actif r' = 0) \<and>
   annonces (snd (acchieve_annonce now' (snd (acchieve_annonce now s i)) i)) =
     map (\<lambda>x. if ann_id x = i then x\<lparr>updated_at := Some now'\<rparr> else x)
       (annonces (snd (acchieve_annonce now s i)))"
proof (intro conjI impI)
  assume "wf_store s \<and> r \<in> set (annonces s)"
  then show "get_annonce (snd (acchieve_annonce now s (ann_id r))) (ann_id r)
        = Inr (r\<lparr>actif := 0, statut := ''pupa'', updated_at := Some now\<rparr>)"
    by (simp add: acchieve_annonce_eq get_annonce_updated get_annonce_present)
next
  assume fetched: "get_annonce (snd (acchieve_annonce now s i)) i = Inr r'"
  from fetched show "statut r' = ''pupa''"
    by (cases "get_annonce s i") (auto simp: acchieve_annonce_eq get_annonce_updated)
  from fetched show "actif r' = 0"
    by (cases "get_annonce s i") (auto simp: acchieve_annonce_eq get_annonce_updated)
qed (simp_all add: acchieve_annonce_eq)

theorem acchieve_annonce_resolves_witness:
  "wf_store wallet_store \<and> wallet \<in> set (annonces wallet_store) \<and>
   get_annonce (snd (acchieve_annonce 200 wallet_store (ann_id wallet))) (ann_id wallet)
     = Inr (wallet\<lparr>actif := 0, statut := ''pupa'', updated_at := Some 200\<rparr>) \<and>
   statut (wallet\<lparr>actif := 0, statut := ''pupa'', updated_at := Some 200\<rparr>) = ''pupa'' \<and>
   actif (wallet\<lparr>actif := 0, statut := ''pupa'', updated_at := Some 200\<rparr>) = 0"
proof -
  have h: "wf_store wallet_store \<and> wallet \<in> set (annonces wallet_store)"
    by (simp add: wf_wallet_store) (simp add: wallet_store_def)
  from h acchieve_annonce_resolves [where s = wallet_store and r = wallet and now = 200]
  have a: "get_annonce (snd (acchieve_annonce 200 wallet_store (ann_id wallet))) (ann_id wallet)
     = Inr (wallet\<lparr>actif := 0, statut := ''pupa'', updated_at := Some 200\<rparr>)"
    by blast
  from a acchieve_annonce_resolves [where s = wallet_store and i = "ann_id wallet" and now = 200
      and r' = "wallet\<lparr>actif := 0, statut := ''pupa'', updated_at := Some 200\<rparr>"]
  have b: "statut (wallet\<lparr>actif := 0, statut := ''pupa'', updated_at := Some 200\<rparr>) = ''pupa'' \<and>
           actif (wallet\<lparr>actif := 0, statut := ''pupa'', updated_at := Some 200\<rparr>) = 0"
    by blast
  from h a b show ?thesis by blast
qed

text \<open>
  C5 (Publish is idempotent). After \<open>publish_annonce\<close>, a fetch of the id can only return a
  row with \<open>actif\<close> 1, and on a store with unique ids it returns the listing with \<open>actif\<close> 1.
  A second call changes \<open>updated_at\<close> only; at the same instant it changes nothing.
\<close>

theorem publish_annonce_idempotent:
  "(wf_store s \<and> r \<in> set (annonces s) \<longrightarrow>
      get_annonce (snd (publish_annonce now s (ann_id r))) (ann_id r)
        = Inr (r\<lparr>actif := 1, updated_at := Some now\<rparr>)) \<and>
   (get_annonce (snd (publish_annonce now s i)) i = Inr r' \<longrightarrow> actif r' = 1) \<and>
   annonces (snd (publish_annonce now' (snd (publish_annonce now s i)) i)) =
     map (\<lambda>x. if ann_id x = i then x\<lparr>updated_at := Some now'\<rparr> else x)
       (annonces (snd (publish_annonce now s i))) \<and>
   annonce_seq (snd (publish_annonce now' (snd (publish_annonce now s i)) i)) =
     annonce_seq (snd (publish_annonce now s i)) \<and>
   devices (snd (publish_annonce now' (snd (publish_annonce now s i)) i)) =
     devices (snd (publish_annonce now s i)) \<and>
   snd (publish_annonce now (snd (publish_annonce now s i)) i) = snd (publish_annonce now s i)"
proof (intro conjI impI)
  assume "wf_store s \<and> r \<in> set (annonces s)"
  then show "get_annonce (snd (publish_annonce now s (ann_id r))) (ann_id r)
        = Inr (r\<lparr>actif := 1, updated_at := Some now\<rparr>)"
    by (simp add: publish_annonce_eq get_annonce_updated get_annonce_present)
next
  assume "get_annonce (snd (publish_annonce now s i)) i = Inr r'"
  then show "actif r' = 1"
    by (cases "get_annonce s i") (auto simp: publish_annonce_eq get_annonce_updated)
next
  show "snd (publish_annonce now (snd (publish_annonce now s i)) i) = snd (publish_annonce now s i)"
    by (simp add: publish_annonce_eq comp_def)
qed (simp_all add: publish_annonce_eq)

theorem publish_annonce_idempotent_witness:
  "wf_store wallet_store \<and> wallet \<in> set (annonces wallet_store) \<and>
   get_annonce (snd (publish_annonce 200 wallet_store (ann_id wallet))) (ann_id wallet)
     = Inr (wallet\<lparr>actif := 1, updated_at := Some 200\<rparr>) \<and>
   actif (wallet\<lparr>actif := 1, updated_at := Some 200\<rparr>) = 1"
proof -
  have h: "wf_store wallet_store \<and> wallet \<in> set (annonces wallet_store)"
    by (simp add: wf_wallet_store) (simp add: wallet_store_def)
  from h publish_annonce_idempotent [where s = wallet_store and r = wallet and now = 200]
  have a: "get_annonce (snd (publish_annonce 200 wallet_store (ann_id wallet))) (ann_id wallet)
     = Inr (wallet\<lparr>actif := 1, updated_at := Some 200\<rparr>)"
    by blast
  from a publish_annonce_idempotent [where s = wallet_store and i = "ann_id wallet" and now = 200
      and r' = "wallet\<lparr>actif := 1, updated_at := Some 200\<rparr>"]
  have b: "actif (wallet\<lparr>actif := 1, updated_at := Some 200\<rparr>) = 1"
    by blast
  from h a b show ?thesis by blast
qed

text \<open>
  C6 (Public and private lists). \<open>get_actives_annonces\<close> returns, in store order, exactly
  the listings whose \<open>actif\<close> is 1 and whose \<open>statut\<close> is the string "fall", and
  \<open>get_inactive_annonce\<close> exactly those whose \<open>actif\<close> is 0 and whose \<open>statut\<close> is "fall";
  both tests are equalities.
\<close>

theorem public_private_lists:
  "get_actives_annonces s = filter (\<lambda>r. actif r = 1 \<and> statut r = ''fall'') (annonces s) \<and>
   get_inactive_annonce s = filter (\<lambda>r. actif r = 0 \<and> statut r = ''fall'') (annonces s) \<and>
   (r \<in> set (get_actives_annonces s)) = (r \<in> set (annonces s) \<and> actif r = 1 \<and> statut r = ''fall'') \<and>
   (r \<in> set (get_inactive_annonce s)) = (r \<in> set (annonces s) \<and> actif r = 0 \<and> statut r = ''fall'')"
  by (auto simp: get_actives_annonces_def get_inactive_annonce_def matches_public matches_private)


text \<open>
  C8 (Create). On a store with unique ids, \<open>create_annonce\<close> appends one listing and returns
  it in full: its id is the next one, which no stored listing has; each field the request
  set holds the value given and each field it left unset holds the default of the schema;
  both timestamps are the current time. A fetch of the returned id returns that same
  listing, so for a request that sets neither \<open>actif\<close> nor \<open>statut\<close> the fetched listing
  has both at their defaults, and \<open>created_at\<close> is not null. The ids of the new store are
  again unique.
\<close>

theorem create_annonce_persists:
  "wf_store s \<Longrightarrow>
     (let obj = \<lparr>ann_id = annonce_seq s + 1,
                 actif = (case in_actif a of None \<Rightarrow> default_actif sch | Some v \<Rightarrow> v),
                 statut = (case in_statut a of None \<Rightarrow> default_statut sch | Some t \<Rightarrow> t),
                 created_at = Some now, updated_at = Some now,
                 descr = default_descr sch ++ in_descr a\<rparr>;
          s' = snd (create_annonce sch now s a)
      in fst (create_annonce sch now s a) = Inr obj \<and>
         annonces s' = annonces s @ [obj] \<and>
         devices s' = devices s \<and>
         ann_id obj \<notin> ann_id ` set (annonces s) \<and>
         wf_store s' \<and>
         get_annonce s' (ann_id obj) = Inr obj \<and>
         created_at obj \<noteq> None \<and>
         (in_actif a = None \<and> in_statut a = None \<longrightarrow>
            actif obj = default_actif sch \<and> statut obj = default_statut sch))"
proof -
  assume wf: "wf_store s"
  define obj where "obj = \<lparr>ann_id = annonce_seq s + 1,
                 actif = (case in_actif a of None \<Rightarrow> default_actif sch | Some v \<Rightarrow> v),
                 statut = (case in_statut a of None \<Rightarrow> default_statut sch | Some t \<Rightarrow> t),
                 created_at = Some now, updated_at = Some now,
                 descr = default_descr sch ++ in_descr a\<rparr>"
  define s' where "s' = s\<lparr>annonces := annonces s @ [obj], annonce_seq := annonce_seq s + 1\<rparr>"
  have res: "create_annonce sch now s a = (Inr obj, s')"
    by (simp add: create_annonce_eq obj_def s'_def Let_def)
  have key: "ann_id obj = annonce_seq s + 1" by (simp add: obj_def)
  have fresh: "ann_id obj \<notin> ann_id ` set (annonces s)"
    using wf unfolding key wf_store_def by (simp add: fresh_id)
  have wf': "wf_store s'"
    using wf fresh by (simp add: wf_store_def s'_def key list_all_next_seq)
  have stored: "obj \<in> set (annonces s')" by (simp add: s'_def)
  have fetched: "get_annonce s' (ann_id obj) = Inr obj"
    using wf' stored by (rule get_annonce_present)
  have dflt: "in_actif a = None \<and> in_statut a = None \<longrightarrow>
            actif obj = default_actif sch \<and> statut obj = default_statut sch"
    by (simp add: obj_def)
  have "fst (create_annonce sch now s a) = Inr obj \<and>
         annonces (snd (create_annonce sch now s a)) = annonces s @ [obj] \<and>
         devices (snd (create_annonce sch now s a)) = devices s \<and>
         ann_id obj \<notin> ann_id ` set (annonces s) \<and>
         wf_store (snd (create_annonce sch now s a)) \<and>
         get_annonce (snd (create_annonce sch now s a)) (ann_id obj) = Inr obj \<and>
         created_at obj \<noteq> None \<and>
         (in_actif a = None \<and> in_statut a = None \<longrightarrow>
            actif obj = default_actif sch \<and> statut obj = default_statut sch)"
    unfolding res using fresh wf' fetched dflt by (simp add: s'_def obj_def)
  then show ?thesis
    unfolding obj_def Let_def .
qed

theorem create_annonce_persists_witness:
  "wf_store empty_store \<and>
   fst (create_annonce example_schema 100 empty_store wallet_in) = Inr wallet \<and>
   annonces (snd (create_annonce example_schema 100 empty_store wallet_in)) = [wallet] \<and>
   get_annonce (snd (create_annonce example_schema 100 empty_store wallet_in)) 1 = Inr wallet \<and>
   in_actif wallet_in = None \<and> in_statut wallet_in = None \<and>
   actif wallet = default_actif example_schema \<and> statut wallet = default_statut example_schema \<and>
   created_at wallet \<noteq> None"
proof -
  have row: "\<lparr>ann_id = annonce_seq empty_store + 1,
        actif = (case in_actif wallet_in of None \<Rightarrow> default_actif example_schema | Some v \<Rightarrow> v),
        statut = (case in_statut wallet_in of None \<Rightarrow> default_statut example_schema | Some t \<Rightarrow> t),
        created_at = Some 100, updated_at = Some 100,
        descr = default_descr example_schema ++ in_descr wallet_in\<rparr> = wallet"
    by (simp add: wallet_def wallet_in_def example_schema_def empty_store_def)
  have unset: "in_actif wallet_in = None \<and> in_statut wallet_in = None"
    by (simp add: wallet_in_def)
  have none: "annonces empty_store = []" by (simp add: empty_store_def)
  have one: "ann_id wallet = 1" by (simp add: wallet_def)
  from create_annonce_persists [OF wf_empty_store, where a = wallet_in and sch = example_schema
      and now = 100]
  show ?thesis
    unfolding Let_def row using unset none one wf_empty_store by simp
qed



text \<open>
  C10 (Publish and Mark resolved on a missing id). When no listing has the id,
  \<open>publish_annonce\<close> and \<open>acchieve_annonce\<close> still answer with their fixed message, raise
  nothing, and leave the store as it was.
\<close>

theorem status_handlers_missing_id:
  "i \<notin> ann_id ` set (annonces s) \<Longrightarrow>
     publish_annonce now s i = (Inr \<lparr>message = publish_message\<rparr>, s) \<and>
     acchieve_annonce now s i = (Inr \<lparr>message = acchieve_message\<rparr>, s)"
  by (simp add: publish_annonce_eq acchieve_annonce_eq update_absent)

theorem status_handlers_missing_id_witness:
  "999999 \<notin> ann_id ` set (annonces wallet_store) \<and>
   publish_annonce 200 wallet_store 999999 = (Inr \<lparr>message = publish_message\<rparr>, wallet_store) \<and>
   acchieve_annonce 200 wallet_store 999999 = (Inr \<lparr>message = acchieve_message\<rparr>, wallet_store)"
proof -
  have h: "999999 \<notin> ann_id ` set (annonces wallet_store)"
    by (simp add: wallet_store_def wallet_def)
  from h status_handlers_missing_id [OF h, of 200] show ?thesis by blast
qed

end
